theory Spec2Isabelle
  imports Main "HOL-Library.Word" "HOL-Library.Sublist" "HOL-Library.AList"
begin

section \<open>JavaScript values\<close>

text \<open>
  A JavaScript string is a sequence of UTF-16 code units.  Literals of the source are
  written \<open>js ''...''\<close>.
\<close>

type_synonym jsstring = "16 word list"

definition js :: "string \<Rightarrow> jsstring" where
  "js = map of_char"

text \<open>The characters that \<open>.\<close> of a regular expression (no \<open>s\<close> flag) does not match.\<close>

definition LineTerminator :: "16 word \<Rightarrow> bool" where
  "LineTerminator c \<longleftrightarrow> c = 0x0A \<or> c = 0x0D \<or> c = 0x2028 \<or> c = 0x2029"

text \<open>The characters that \<open>String.prototype.trim\<close> strips.\<close>

definition WhiteSpace :: "16 word \<Rightarrow> bool" where
  "WhiteSpace c \<longleftrightarrow>
     c = 0x09 \<or> c = 0x0B \<or> c = 0x0C \<or> c = 0x20 \<or> c = 0xA0 \<or> c = 0xFEFF \<or>
     c = 0x1680 \<or> (0x2000 \<le> c \<and> c \<le> 0x200A) \<or> c = 0x202F \<or> c = 0x205F \<or>
     c = 0x3000 \<or> LineTerminator c"

definition trim :: "jsstring \<Rightarrow> jsstring" where
  "trim s = rev (dropWhile WhiteSpace (rev (dropWhile WhiteSpace s)))"

text \<open>\<open>s.includes(t)\<close>\<close>

definition str_includes :: "jsstring \<Rightarrow> jsstring \<Rightarrow> bool" where
  "str_includes s t = sublist t s"

text \<open>
  Values of type \<open>any\<close> that travel as tool arguments, tool results and schemas.
  Of the numbers, the integers are represented.  \<open>undefined\<close> is \<open>None\<close> of an
  option type.
\<close>

datatype json =
    JNull
  | JBool bool
  | JNum int
  | JStr jsstring
  | JArr "json list"
  | JObj "(jsstring \<times> json) list"

fun truthy :: "json \<Rightarrow> bool" where
  "truthy JNull = False"
| "truthy (JBool b) = b"
| "truthy (JNum n) = (n \<noteq> 0)"
| "truthy (JStr s) = (s \<noteq> [])"
| "truthy (JArr _) = True"
| "truthy (JObj _) = True"


text \<open>An optional string used as a condition: \<open>undefined\<close> and \<open>""\<close> are falsy.\<close>

fun truthy_str :: "jsstring option \<Rightarrow> bool" where
  "truthy_str None = False"
| "truthy_str (Some s) = (s \<noteq> [])"

text \<open>\<open>a || b\<close> for an optional string and for an optional value.\<close>

definition str_or :: "jsstring option \<Rightarrow> jsstring \<Rightarrow> jsstring" where
  "str_or a b = (case a of None \<Rightarrow> b | Some s \<Rightarrow> if s \<noteq> [] then s else b)"

definition json_or :: "json option \<Rightarrow> json \<Rightarrow> json" where
  "json_or a b = (case a of None \<Rightarrow> b | Some v \<Rightarrow> if truthy v then v else b)"

text \<open>
  A thrown value, as far as the source inspects it: its \<open>code\<close> and its \<open>message\<close>.
\<close>

record js_error =
  err_code :: "int option"
  err_message :: "jsstring option"

definition Error :: "jsstring \<Rightarrow> js_error" where
  "Error m = \<lparr>err_code = None, err_message = Some m\<rparr>"

text \<open>A natural number in a template literal: its decimal digits.\<close>

fun decimal :: "nat \<Rightarrow> jsstring" where
  "decimal n =
     (if n < 10 then [of_nat (48 + n)] else decimal (n div 10) @ [of_nat (48 + n mod 10)])"

declare decimal.simps [simp del]

text \<open>
  A JavaScript \<open>Map\<close>: keys are unique and iteration follows insertion order; \<open>set\<close> on
  a present key keeps its position.
\<close>

type_synonym ('k, 'v) Map = "('k \<times> 'v) list"

definition Map_get :: "('k, 'v) Map \<Rightarrow> 'k \<Rightarrow> 'v option" where
  "Map_get m k = map_of m k"

definition Map_has :: "('k, 'v) Map \<Rightarrow> 'k \<Rightarrow> bool" where
  "Map_has m k \<longleftrightarrow> map_of m k \<noteq> None"

definition Map_set :: "'k \<Rightarrow> 'v \<Rightarrow> ('k, 'v) Map \<Rightarrow> ('k, 'v) Map" where
  "Map_set k v m = AList.update k v m"

definition Map_delete :: "'k \<Rightarrow> ('k, 'v) Map \<Rightarrow> ('k, 'v) Map" where
  "Map_delete k m = AList.delete k m"

text \<open>
  What the program does to the outside, in order: calls of the logger (their first
  argument) and requests sent to a tool-provider server.
\<close>

datatype effect =
    LogInfo jsstring
  | LogError jsstring
  | CallTool jsstring jsstring json

section \<open>MCPClientManager (mcpClient.ts)\<close>

record MCPServerConfig =
  server_name :: jsstring
  sseUrl :: jsstring
  apiKey :: "jsstring option"
  enabled :: "bool option"

record MCPTool =
  tool_name :: jsstring
  tool_description :: jsstring
  inputSchema :: json

record MCPResource =
  uri :: jsstring
  resource_name :: jsstring
  resource_description :: "jsstring option"
  mimeType :: "jsstring option"

text \<open>A \<open>Tool\<close> of the SDK as a server reports it, and the two list responses.\<close>

record Tool =
  sdk_name :: jsstring
  sdk_description :: "jsstring option"
  sdk_inputSchema :: "json option"

record ListToolsResult =
  response_tools :: "Tool list option"

record ListResourcesResult =
  response_resources :: "MCPResource list option"

datatype SSEClientTransport = SSEClientTransport jsstring

datatype Client = Client jsstring jsstring

text \<open>
  The answers of the outside world to the calls an operation makes: the \<open>URL\<close>
  constructor, and per server name the handshake, the two \<open>close\<close> calls and the list
  requests.  \<open>callTool\<close> also receives the position, within the list handed to
  \<open>executeMCPTools\<close>, of the tool call that sends the request, so a provider may answer
  every request of one run differently.
\<close>

record world =
  new_URL :: "jsstring \<Rightarrow> js_error + jsstring"
  client_connect :: "jsstring \<Rightarrow> js_error + unit"
  client_close :: "jsstring \<Rightarrow> js_error + unit"
  transport_close :: "jsstring \<Rightarrow> js_error + unit"
  listTools :: "jsstring \<Rightarrow> js_error + ListToolsResult"
  listResources :: "jsstring \<Rightarrow> js_error + ListResourcesResult"
  callTool :: "nat \<Rightarrow> jsstring \<Rightarrow> jsstring \<Rightarrow> json \<Rightarrow> js_error + json"

record MCPClientManager =
  clients :: "(jsstring, Client) Map"
  transports :: "(jsstring, SSEClientTransport) Map"
  servers :: "(jsstring, MCPServerConfig) Map"
  tools :: "(jsstring, MCPTool list) Map"
  resources :: "(jsstring, MCPResource list) Map"

definition addServer :: "MCPServerConfig \<Rightarrow> MCPClientManager \<Rightarrow> MCPClientManager" where
  "addServer serverConfig st =
     st\<lparr>servers := Map_set (server_name serverConfig) serverConfig (servers st)\<rparr>"

definition isServerConnected :: "MCPClientManager \<Rightarrow> jsstring \<Rightarrow> bool" where
  "isServerConnected st serverName = Map_has (clients st) serverName"

definition getServerTools :: "MCPClientManager \<Rightarrow> jsstring \<Rightarrow> MCPTool list" where
  "getServerTools st serverName =
     (case Map_get (tools st) serverName of Some ts \<Rightarrow> ts | None \<Rightarrow> [])"


text \<open>
  The condition of the \<open>catch\<close> clauses:
  \<open>error.code === -32601 || error.message?.includes("Method not found")\<close>.
\<close>

definition method_not_found :: "js_error \<Rightarrow> bool" where
  "method_not_found error \<longleftrightarrow>
     err_code error = Some (- 32601) \<or>
     (case err_message error of
        None \<Rightarrow> False
      | Some m \<Rightarrow> str_includes m (js ''Method not found''))"

definition toMCPTool :: "Tool \<Rightarrow> MCPTool" where
  "toMCPTool tool =
     \<lparr>tool_name = sdk_name tool,
      tool_description = str_or (sdk_description tool) [],
      inputSchema = json_or (sdk_inputSchema tool) (JObj [])\<rparr>"

definition loadServerTools ::
  "world \<Rightarrow> jsstring \<Rightarrow> MCPClientManager \<Rightarrow> (js_error + unit) \<times> MCPClientManager \<times> effect list"
where
  "loadServerTools w serverName st =
     (case Map_get (clients st) serverName of
        None \<Rightarrow> (Inl (Error (js ''Client for server '' @ serverName @ js '' not found'')), st, [])
      | Some client \<Rightarrow>
          (case listTools w serverName of
             Inr response \<Rightarrow>
               (case response_tools response of
                  Some ts \<Rightarrow>
                    (Inr (),
                     st\<lparr>tools := Map_set serverName (map toMCPTool ts) (tools st)\<rparr>,
                     [LogInfo (js ''Tools response from '' @ serverName @ js '':''),
                      LogInfo (js ''Loaded '' @ decimal (length ts) @
                               js '' tools from server: '' @ serverName)])
                | None \<Rightarrow>
                    (Inr (), st,
                     [LogInfo (js ''Tools response from '' @ serverName @ js '':''),
                      LogInfo (js ''No tools found in response from '' @ serverName)]))
           | Inl error \<Rightarrow>
               if method_not_found error
               then (Inr (),
                     st\<lparr>tools := Map_set serverName [] (tools st)\<rparr>,
                     [LogInfo (js ''Server '' @ serverName @
                               js '' does not support tools/list_tools method'')])
               else (Inr (), st,
                     [LogError (js ''Failed to load tools from server '' @ serverName @ js '':'')])))"

definition loadServerResources ::
  "world \<Rightarrow> jsstring \<Rightarrow> MCPClientManager \<Rightarrow> (js_error + unit) \<times> MCPClientManager \<times> effect list"
where
  "loadServerResources w serverName st =
     (case Map_get (clients st) serverName of
        None \<Rightarrow> (Inl (Error (js ''Client for server '' @ serverName @ js '' not found'')), st, [])
      | Some client \<Rightarrow>
          (case listResources w serverName of
             Inr response \<Rightarrow>
               (case response_resources response of
                  Some rs \<Rightarrow>
                    (Inr (),
                     st\<lparr>resources := Map_set serverName rs (resources st)\<rparr>,
                     [LogInfo (js ''Loaded '' @ decimal (length rs) @
                               js '' resources from server: '' @ serverName)])
                | None \<Rightarrow> (Inr (), st, []))
           | Inl error \<Rightarrow>
               if method_not_found error
               then (Inr (),
                     st\<lparr>resources := Map_set serverName [] (resources st)\<rparr>,
                     [LogInfo (js ''Server '' @ serverName @
                               js '' does not support resources/list method'')])
               else (Inr (), st,
                     [LogError (js ''Failed to load resources from server '' @ serverName @
                                js '':'')])))"

text \<open>
  \<open>connectToServer\<close>.  Everything from the \<open>URL\<close> constructor on runs inside the
  \<open>try\<close>; the \<open>catch\<close> logs and rethrows.  \<open>Promise.allSettled\<close> discards the results of
  the two loaders, which write to different maps.
\<close>

definition connectToServer ::
  "world \<Rightarrow> jsstring \<Rightarrow> MCPClientManager \<Rightarrow> (js_error + unit) \<times> MCPClientManager \<times> effect list"
where
  "connectToServer w serverName st =
     (case Map_get (servers st) serverName of
        None \<Rightarrow> (Inl (Error (js ''Server '' @ serverName @ js '' not found'')), st, [])
      | Some serverConfig \<Rightarrow>
          (case new_URL w (sseUrl serverConfig) of
             Inl error \<Rightarrow>
               (Inl error, st,
                [LogError (js ''Failed to connect to MCP server '' @ serverName @ js '':'')])
           | Inr url \<Rightarrow>
               (case client_connect w serverName of
                  Inl error \<Rightarrow>
                    (Inl error, st,
                     [LogError (js ''Failed to connect to MCP server '' @ serverName @ js '':'')])
                | Inr _ \<Rightarrow>
                    (let st1 = st\<lparr>clients :=
                                    Map_set serverName
                                      (Client (js ''obsidian-copilot'') (js ''1.0.0''))
                                      (clients st)\<rparr>;
                         st2 = st1\<lparr>transports :=
                                    Map_set serverName (SSEClientTransport url) (transports st1)\<rparr>;
                         (r1, st3, fx1) = loadServerTools w serverName st2;
                         (r2, st4, fx2) = loadServerResources w serverName st3
                     in (Inr (), st4,
                         fx1 @ fx2 @ [LogInfo (js ''Connected to MCP server: '' @ serverName)])))))"

definition disconnectFromServer ::
  "world \<Rightarrow> jsstring \<Rightarrow> MCPClientManager \<Rightarrow> MCPClientManager \<times> effect list"
where
  "disconnectFromServer w serverName st =
     (let client = Map_get (clients st) serverName;
          transport = Map_get (transports st) serverName;
          (st1, fx1) =
            (case client of
               None \<Rightarrow> (st, [])
             | Some c \<Rightarrow>
                 (case client_close w serverName of
                    Inr _ \<Rightarrow> (st\<lparr>clients := Map_delete serverName (clients st)\<rparr>, [])
                  | Inl error \<Rightarrow>
                      (st, [LogError (js ''Error closing client for server '' @ serverName @
                                      js '':'')])));
          (st2, fx2) =
            (case transport of
               None \<Rightarrow> (st1, [])
             | Some t \<Rightarrow>
                 (case transport_close w serverName of
                    Inr _ \<Rightarrow> (st1\<lparr>transports := Map_delete serverName (transports st1)\<rparr>, [])
                  | Inl error \<Rightarrow>
                      (st1, [LogError (js ''Error closing transport for server '' @ serverName @
                                       js '':'')])));
          st3 = st2\<lparr>tools := Map_delete serverName (tools st2)\<rparr>;
          st4 = st3\<lparr>resources := Map_delete serverName (resources st3)\<rparr>
      in (st4, fx1 @ fx2 @ [LogInfo (js ''Disconnected from MCP server: '' @ serverName)]))"

text \<open>The template literal \<open>`@mcp-${serverName}-${name}`\<close>.\<close>

definition mcp_id :: "jsstring \<Rightarrow> jsstring \<Rightarrow> jsstring" where
  "mcp_id serverName name = js ''@mcp-'' @ serverName @ js ''-'' @ name"



definition executeTool ::
  "world \<Rightarrow> MCPClientManager \<Rightarrow> nat \<Rightarrow> jsstring \<Rightarrow> jsstring \<Rightarrow> json \<Rightarrow>
   (js_error + json) \<times> effect list"
where
  "executeTool w st n serverName toolName arguments =
     (case Map_get (clients st) serverName of
        None \<Rightarrow> (Inl (Error (js ''Client for server '' @ serverName @ js '' not found'')), [])
      | Some client \<Rightarrow>
          (case callTool w n serverName toolName arguments of
             Inr response \<Rightarrow>
               (Inr response,
                [CallTool serverName toolName arguments,
                 LogInfo (js ''Executed tool '' @ toolName @ js '' on server '' @ serverName)])
           | Inl error \<Rightarrow>
               (Inl error,
                [CallTool serverName toolName arguments,
                 LogError (js ''Failed to execute tool '' @ toolName @ js '' on server '' @
                           serverName @ js '':'')])))"

section \<open>MCPToolsManager (MCPTools.ts)\<close>

text \<open>The part of the settings object that the tool manager reads.\<close>

record settings =
  mcpDisabledTools :: "jsstring list option"

definition disabledTools :: "settings \<Rightarrow> jsstring set" where
  "disabledTools s = set (case mcpDisabledTools s of None \<Rightarrow> [] | Some ids \<Rightarrow> ids)"


text \<open>
  \<open>toolName.match(/^@mcp-(.+?)-(.+)$/)\<close>.  After the literal prefix the first group is
  lazy: it takes one character and then grows one character at a time, and at every
  length the rest of the pattern is tried, a dash followed by one or more characters
  up to the end of the input.  \<open>lazy_group g cs\<close> is the matcher with \<open>g\<close> taken by the
  first group and \<open>cs\<close> still to read; the result is the pair of the two groups.
\<close>

fun lazy_group :: "jsstring \<Rightarrow> jsstring \<Rightarrow> (jsstring \<times> jsstring) option" where
  "lazy_group g [] = None"
| "lazy_group g (c # cs) =
     (if g \<noteq> [] \<and> c = 0x2D \<and> cs \<noteq> [] \<and> list_all (\<lambda>d. \<not> LineTerminator d) cs
      then Some (g, cs)
      else if \<not> LineTerminator c then lazy_group (g @ [c]) cs
      else None)"

definition match_mcp :: "jsstring \<Rightarrow> (jsstring \<times> jsstring) option" where
  "match_mcp toolName =
     (if prefix (js ''@mcp-'') toolName then lazy_group [] (drop 5 toolName) else None)"

definition executeMCPTool ::
  "settings \<Rightarrow> world \<Rightarrow> MCPClientManager \<Rightarrow> nat \<Rightarrow> jsstring \<Rightarrow> json \<Rightarrow>
   (js_error + json) \<times> effect list"
where
  "executeMCPTool s w st n toolName args =
     (let (r, fx) =
            (if toolName \<in> disabledTools s
             then (Inl (Error (js ''MCP tool '' @ toolName @ js '' is disabled'')), [])
             else
               (case match_mcp toolName of
                  None \<Rightarrow> (Inl (Error (js ''Invalid MCP tool name format: '' @ toolName)), [])
                | Some (serverName, actualToolName) \<Rightarrow>
                    if \<not> isServerConnected st serverName
                    then (Inl (Error (js ''MCP server '' @ serverName @ js '' is not connected'')),
                          [])
                    else
                      (case executeTool w st n serverName actualToolName args of
                         (Inr result, fx) \<Rightarrow>
                           (Inr result,
                            fx @ [LogInfo (js ''Executed MCP tool '' @ actualToolName @
                                           js '' on server '' @ serverName)])
                       | (Inl error, fx) \<Rightarrow> (Inl error, fx))))
      in case r of
           Inl error \<Rightarrow>
             (Inl error, fx @ [LogError (js ''Failed to execute MCP tool '' @ toolName @ js '':'')])
         | Inr result \<Rightarrow> (Inr result, fx))"

definition isMCPTool :: "jsstring \<Rightarrow> bool" where
  "isMCPTool toolName = prefix (js ''@mcp-'') toolName"

section \<open>The chain runner: streaming and tool calls\<close>

text \<open>
  The functions of this section are those of \<open>CopilotPlusChainRunner\<close>.  Of their
  effects the model keeps the ones that reach a tool provider, through
  \<open>executeMCPTool\<close>; the progress lines they write to the logger and the console and
  the calls of \<open>updateCurrentAiMessage\<close> are left out.  A stream is finite and delivers
  its chunks without failing.
\<close>

text \<open>
  Library functions whose result the program does not fix: \<open>JSON.parse\<close> (\<open>None\<close> when
  it throws), \<open>JSON.stringify\<close>, \<open>err2String\<close> of the utilities, and the identifier
  built from \<open>Date.now()\<close> and a random or positional suffix.
\<close>

record runtime =
  JSON_parse :: "jsstring \<Rightarrow> json option"
  JSON_stringify :: "json \<Rightarrow> jsstring"
  err2String :: "js_error \<Rightarrow> jsstring"
  generated_id :: "nat \<Rightarrow> jsstring"

text \<open>
  A model of \<open>JSON.parse\<close> on the texts without fractions, exponents and escape
  sequences, to run the program on concrete inputs; what \<open>JSON.parse\<close> returns on
  other texts is left to the \<open>runtime\<close> argument.  The first argument of the three
  parsers bounds the number of values still to be read.
\<close>

definition json_ws :: "16 word \<Rightarrow> bool" where
  "json_ws c \<longleftrightarrow> c = 0x20 \<or> c = 0x09 \<or> c = 0x0A \<or> c = 0x0D"

definition skip_ws :: "jsstring \<Rightarrow> jsstring" where
  "skip_ws = dropWhile json_ws"

definition is_digit :: "16 word \<Rightarrow> bool" where
  "is_digit c \<longleftrightarrow> 0x30 \<le> c \<and> c \<le> 0x39"

fun parse_digits :: "int \<Rightarrow> jsstring \<Rightarrow> int \<times> jsstring" where
  "parse_digits acc [] = (acc, [])"
| "parse_digits acc (c # cs) =
     (if is_digit c then parse_digits (acc * 10 + (uint c - 48)) cs else (acc, c # cs))"

definition number_ends :: "jsstring \<Rightarrow> bool" where
  "number_ends cs \<longleftrightarrow>
     (case cs of [] \<Rightarrow> True | c # _ \<Rightarrow> c \<noteq> 0x2E \<and> c \<noteq> 0x65 \<and> c \<noteq> 0x45 \<and> \<not> is_digit c)"

definition parse_natural :: "jsstring \<Rightarrow> (int \<times> jsstring) option" where
  "parse_natural cs =
     (case cs of
        [] \<Rightarrow> None
      | c # rest \<Rightarrow>
          if c = 0x30 then (if number_ends rest then Some (0, rest) else None)
          else if is_digit c
          then (case parse_digits 0 (c # rest) of
                  (i, rest') \<Rightarrow> if number_ends rest' then Some (i, rest') else None)
          else None)"

definition parse_number :: "jsstring \<Rightarrow> (int \<times> jsstring) option" where
  "parse_number cs =
     (case cs of
        [] \<Rightarrow> None
      | c # rest \<Rightarrow>
          if c = 0x2D then map_option (\<lambda>(i, r). (- i, r)) (parse_natural rest)
          else parse_natural (c # rest))"

text \<open>The characters of a string after its opening quote, up to the closing one.\<close>

fun parse_string :: "jsstring \<Rightarrow> jsstring \<Rightarrow> (jsstring \<times> jsstring) option" where
  "parse_string acc [] = None"
| "parse_string acc (c # cs) =
     (if c = 0x22 then Some (acc, cs)
      else if c = 0x5C \<or> c < 0x20 then None
      else parse_string (acc @ [c]) cs)"

fun parse_value :: "nat \<Rightarrow> jsstring \<Rightarrow> (json \<times> jsstring) option"
  and parse_elements :: "nat \<Rightarrow> json list \<Rightarrow> jsstring \<Rightarrow> (json \<times> jsstring) option"
  and parse_members :: "nat \<Rightarrow> (jsstring \<times> json) list \<Rightarrow> jsstring \<Rightarrow> (json \<times> jsstring) option"
where
  "parse_value 0 cs = None"
| "parse_value (Suc n) cs =
     (case skip_ws cs of
        [] \<Rightarrow> None
      | c # rest \<Rightarrow>
          if c = 0x7B
          then (case skip_ws rest of
                  [] \<Rightarrow> None
                | d # rest' \<Rightarrow>
                    if d = 0x7D then Some (JObj [], rest') else parse_members n [] (d # rest'))
          else if c = 0x5B
          then (case skip_ws rest of
                  [] \<Rightarrow> None
                | d # rest' \<Rightarrow>
                    if d = 0x5D then Some (JArr [], rest') else parse_elements n [] (d # rest'))
          else if c = 0x22
          then map_option (\<lambda>(t, r). (JStr t, r)) (parse_string [] rest)
          else if prefix (js ''true'') (c # rest) then Some (JBool True, drop 4 (c # rest))
          else if prefix (js ''false'') (c # rest) then Some (JBool False, drop 5 (c # rest))
          else if prefix (js ''null'') (c # rest) then Some (JNull, drop 4 (c # rest))
          else map_option (\<lambda>(i, r). (JNum i, r)) (parse_number (c # rest)))"
| "parse_elements 0 acc cs = None"
| "parse_elements (Suc n) acc cs =
     (case parse_value n cs of
        None \<Rightarrow> None
      | Some (v, rest) \<Rightarrow>
          (case skip_ws rest of
             [] \<Rightarrow> None
           | c # rest' \<Rightarrow>
               if c = 0x2C then parse_elements n (acc @ [v]) rest'
               else if c = 0x5D then Some (JArr (acc @ [v]), rest')
               else None))"
| "parse_members 0 acc cs = None"
| "parse_members (Suc n) acc cs =
     (case skip_ws cs of
        [] \<Rightarrow> None
      | c # rest \<Rightarrow>
          if c = 0x22
          then (case parse_string [] rest of
                  None \<Rightarrow> None
                | Some (k, rest1) \<Rightarrow>
                    (case skip_ws rest1 of
                       [] \<Rightarrow> None
                     | d # rest2 \<Rightarrow>
                         if d = 0x3A
                         then (case parse_value n rest2 of
                                 None \<Rightarrow> None
                               | Some (v, rest3) \<Rightarrow>
                                   (case skip_ws rest3 of
                                      [] \<Rightarrow> None
                                    | e # rest4 \<Rightarrow>
                                        if e = 0x2C
                                        then parse_members n (AList.update k v acc) rest4
                                        else if e = 0x7D
                                        then Some (JObj (AList.update k v acc), rest4)
                                        else None))
                         else None))
          else None)"

definition parseJSON :: "jsstring \<Rightarrow> json option" where
  "parseJSON text =
     (case parse_value (Suc (length text)) text of
        None \<Rightarrow> None
      | Some (v, rest) \<Rightarrow> if skip_ws rest = [] then Some v else None)"

text \<open>An element of \<open>chunk.tool_call_chunks\<close>: a fragment of a tool call.\<close>

record ToolCallChunk =
  tcc_index :: nat
  tcc_name :: "jsstring option"
  tcc_args :: "jsstring option"
  tcc_id :: "jsstring option"

text \<open>
  An element of \<open>chunk.tool_calls\<close> and of \<open>toolCallsBuffer\<close>: the properties of a
  tool call that the source reads.
\<close>

record ToolCall =
  call_id :: "jsstring option"
  call_name :: "jsstring option"
  call_args :: "json option"
  call_input :: "json option"

datatype content_block = ContentBlock (block_type: "jsstring option") (block_text: "jsstring option")

datatype content = NoContent | Text jsstring | Blocks "content_block list"

record chunk =
  content :: content
  tool_call_chunks :: "ToolCallChunk list option"
  tool_calls :: "ToolCall list option"

text \<open>\<open>ThinkBlockStreamer.processChunk\<close>, on the streamer's \<open>fullResponse\<close>.\<close>

definition processChunk :: "chunk \<Rightarrow> jsstring \<Rightarrow> jsstring" where
  "processChunk c response =
     (case content c of
        NoContent \<Rightarrow> response
      | Text t \<Rightarrow> response @ t
      | Blocks items \<Rightarrow>
          foldl (\<lambda>r item.
                   if block_type item = Some (js ''text'') \<and> truthy_str (block_text item)
                   then r @ str_or (block_text item) []
                   else r)
                response items)"

record accumulated =
  acc_name :: jsstring
  acc_args :: jsstring
  acc_id :: "jsstring option"

text \<open>The body of the loop over \<open>chunk.tool_call_chunks\<close>.\<close>

definition accumulate ::
  "ToolCallChunk \<Rightarrow> (nat, accumulated) Map \<Rightarrow> (nat, accumulated) Map"
where
  "accumulate toolChunk m =
     (let index = tcc_index toolChunk;
          m1 = (if \<not> Map_has m index
                then Map_set index \<lparr>acc_name = [], acc_args = [], acc_id = tcc_id toolChunk\<rparr> m
                else m)
      in case Map_get m1 index of
           None \<Rightarrow> m1
         | Some accumulator \<Rightarrow>
             (let a1 = (if truthy_str (tcc_name toolChunk)
                        then accumulator\<lparr>acc_name := str_or (tcc_name toolChunk) []\<rparr>
                        else accumulator);
                  a2 = (if truthy_str (tcc_args toolChunk)
                        then a1\<lparr>acc_args := acc_args a1 @ str_or (tcc_args toolChunk) []\<rparr>
                        else a1);
                  a3 = (if truthy_str (tcc_id toolChunk)
                        then a2\<lparr>acc_id := tcc_id toolChunk\<rparr>
                        else a2)
              in Map_set index a3 m1))"

record stream_state =
  fullResponse :: jsstring
  toolCallsBuffer :: "ToolCall list"
  hasToolCalls :: bool
  toolCallAccumulator :: "(nat, accumulated) Map"

definition initial_state :: stream_state where
  "initial_state =
     \<lparr>fullResponse = [], toolCallsBuffer = [], hasToolCalls = False, toolCallAccumulator = []\<rparr>"

text \<open>The filter on complete tool calls: \<open>tc.name && tc.name.trim() !== ""\<close>.\<close>

definition valid_name :: "ToolCall \<Rightarrow> bool" where
  "valid_name tc \<longleftrightarrow> truthy_str (call_name tc) \<and> trim (str_or (call_name tc) []) \<noteq> []"

text \<open>The object pushed for a complete tool call; \<open>n\<close> numbers the generated identifier.\<close>

definition buffered :: "runtime \<Rightarrow> nat \<Rightarrow> ToolCall \<Rightarrow> ToolCall" where
  "buffered rt n toolCall =
     toolCall\<lparr>call_id := Some (str_or (call_id toolCall) (generated_id rt n)),
              call_args := Some (json_or (call_args toolCall)
                                   (json_or (call_input toolCall) (JObj [])))\<rparr>"

text \<open>The body of the first \<open>for await\<close> loop, after the check of the abort signal.\<close>

definition consume :: "runtime \<Rightarrow> chunk \<Rightarrow> stream_state \<Rightarrow> stream_state" where
  "consume rt c s =
     (let s1 = (case tool_call_chunks c of
                  Some (t # ts) \<Rightarrow>
                    s\<lparr>hasToolCalls := True,
                      toolCallAccumulator :=
                        foldl (\<lambda>m toolChunk. accumulate toolChunk m) (toolCallAccumulator s) (t # ts)\<rparr>
                | _ \<Rightarrow> s);
          s2 = (case tool_call_chunks c of
                  None \<Rightarrow>
                    (case tool_calls c of
                       Some (t # ts) \<Rightarrow>
                         (let validToolCalls = filter valid_name (t # ts)
                          in if validToolCalls \<noteq> []
                             then s1\<lparr>hasToolCalls := True,
                                     toolCallsBuffer :=
                                       foldl (\<lambda>buf toolCall. buf @ [buffered rt (length buf) toolCall])
                                             (toolCallsBuffer s1) validToolCalls\<rparr>
                             else s1)
                     | _ \<Rightarrow> s1)
                | Some _ \<Rightarrow> s1)
      in s2\<lparr>fullResponse := processChunk c (fullResponse s2)\<rparr>)"

text \<open>
  The first \<open>for await\<close> loop.  A stream is the list of the chunks it delivers, each
  with the value of \<open>abortController.signal.aborted\<close> read when the chunk arrives.
\<close>

fun stream_loop :: "runtime \<Rightarrow> (bool \<times> chunk) list \<Rightarrow> stream_state \<Rightarrow> stream_state" where
  "stream_loop rt [] s = s"
| "stream_loop rt ((aborted, c) # rest) s =
     (if aborted then s else stream_loop rt rest (consume rt c s))"

text \<open>The block after the loop: the tool calls that the pass resolves.\<close>

definition parse_entry :: "runtime \<Rightarrow> nat \<times> accumulated \<Rightarrow> ToolCall list" where
  "parse_entry rt e =
     (case e of (index, accumulator) \<Rightarrow>
        if acc_name accumulator \<noteq> [] \<and> acc_args accumulator \<noteq> []
        then (case JSON_parse rt (acc_args accumulator) of
                Some parsedArgs \<Rightarrow>
                  [\<lparr>call_id = Some (str_or (acc_id accumulator) (generated_id rt index)),
                    call_name = Some (acc_name accumulator),
                    call_args = Some parsedArgs,
                    call_input = None\<rparr>]
              | None \<Rightarrow> [])
        else [])"

definition resolved_calls :: "runtime \<Rightarrow> stream_state \<Rightarrow> ToolCall list" where
  "resolved_calls rt s =
     (if hasToolCalls s \<and> toolCallAccumulator s \<noteq> []
      then concat (map (parse_entry rt) (toolCallAccumulator s))
      else toolCallsBuffer s)"







datatype message =
    Message jsstring jsstring
  | AssistantWithToolCalls jsstring "ToolCall list"
  | ToolResultMessage jsstring jsstring jsstring



record response =
  returned :: jsstring
  messages_sent :: "message list"
  lastToolResults :: "message list option"
  effects :: "effect list"


section \<open>Concrete configurations\<close>

text \<open>
  A manager with one connected server \<open>alpha\<close> that offers the tool \<open>echo\<close>, the same
  manager with the server registered but never connected, and worlds: one where every
  call succeeds and a tool call returns its arguments, one where closing fails, one
  where the handshake fails, two where the list requests fail, and one where the
  first tool request fails and the later ones succeed.
\<close>

definition alpha_manager :: MCPClientManager where
  "alpha_manager =
     \<lparr>clients = [(js ''alpha'', Client (js ''obsidian-copilot'') (js ''1.0.0''))],
      transports = [(js ''alpha'', SSEClientTransport (js ''http://localhost:3000/sse''))],
      servers = [(js ''alpha'',
                  \<lparr>server_name = js ''alpha'', sseUrl = js ''http://localhost:3000/sse'',
                   apiKey = None, enabled = Some True\<rparr>)],
      tools = [(js ''alpha'',
                [\<lparr>tool_name = js ''echo'', tool_description = js ''Echo back the input'',
                  inputSchema = JObj []\<rparr>])],
      resources = [(js ''alpha'', [])]\<rparr>"

definition registered_manager :: MCPClientManager where
  "registered_manager =
     alpha_manager\<lparr>clients := [], transports := [], tools := [], resources := []\<rparr>"

definition echo_world :: world where
  "echo_world =
     \<lparr>new_URL = Inr,
      client_connect = (\<lambda>_. Inr ()),
      client_close = (\<lambda>_. Inr ()),
      transport_close = (\<lambda>_. Inr ()),
      listTools = (\<lambda>_. Inr \<lparr>response_tools = Some []\<rparr>),
      listResources = (\<lambda>_. Inr \<lparr>response_resources = Some []\<rparr>),
      callTool = (\<lambda>n server tool args. Inr args)\<rparr>"

definition failing_close_world :: world where
  "failing_close_world =
     echo_world\<lparr>client_close := (\<lambda>_. Inl (Error (js ''socket hang up''))),
                transport_close := (\<lambda>_. Inl (Error (js ''socket hang up'')))\<rparr>"

definition refusing_world :: world where
  "refusing_world = echo_world\<lparr>client_connect := (\<lambda>_. Inl (Error (js ''ECONNREFUSED'')))\<rparr>"



text \<open>
  A runtime with the model of \<open>JSON.parse\<close>, and chunks of a stream: a fragment of a
  tool call, a complete tool call, and narrative text.
\<close>

definition model_runtime :: runtime where
  "model_runtime =
     \<lparr>JSON_parse = parseJSON,
      JSON_stringify = (\<lambda>v. js ''[result]''),
      err2String = (\<lambda>e. str_or (err_message e) (js ''undefined'')),
      generated_id = (\<lambda>n. js ''tool_call_generated'')\<rparr>"

definition partial_call :: "nat \<Rightarrow> string \<Rightarrow> string \<Rightarrow> string \<Rightarrow> ToolCallChunk" where
  "partial_call i ident n a =
     \<lparr>tcc_index = i, tcc_name = Some (js n), tcc_args = Some (js a), tcc_id = Some (js ident)\<rparr>"

definition fragment :: "nat \<Rightarrow> string \<Rightarrow> string \<Rightarrow> string \<Rightarrow> bool \<times> chunk" where
  "fragment i ident n a =
     (False,
      \<lparr>content = NoContent,
       tool_call_chunks = Some [partial_call i ident n a],
       tool_calls = None\<rparr>)"

definition complete_call :: "string \<Rightarrow> string \<Rightarrow> ToolCall" where
  "complete_call ident n =
     \<lparr>call_id = Some (js ident), call_name = Some (js n), call_args = Some (JObj []),
      call_input = None\<rparr>"

definition whole_call :: "string \<Rightarrow> string \<Rightarrow> bool \<times> chunk" where
  "whole_call ident n =
     (False,
      \<lparr>content = NoContent, tool_call_chunks = None,
       tool_calls = Some [complete_call ident n]\<rparr>)"



definition narrative :: "bool \<Rightarrow> string \<Rightarrow> bool \<times> chunk" where
  "narrative aborted t =
     (aborted, \<lparr>content = Text (js t), tool_call_chunks = None, tool_calls = None\<rparr>)"

section \<open>Properties of the tool identifiers and of the tool manager\<close>

lemma lazy_group_split:
  "g @ sv \<noteq> [] \<Longrightarrow> 0x2D \<notin> set sv \<Longrightarrow> \<forall>c \<in> set sv. \<not> LineTerminator c \<Longrightarrow>
   l \<noteq> [] \<Longrightarrow> \<forall>c \<in> set l. \<not> LineTerminator c \<Longrightarrow>
   lazy_group g (sv @ 0x2D # l) = Some (g @ sv, l)"
proof (induction sv arbitrary: g)
  case Nil
  then show ?case by (simp add: list_all_iff)
next
  case (Cons c sv)
  have "lazy_group (g @ [c]) (sv @ 0x2D # l) = Some ((g @ [c]) @ sv, l)"
    using Cons.prems by (intro Cons.IH) auto
  with Cons.prems show ?case by simp
qed

lemma match_mcp_id:
  "match_mcp (mcp_id sv l) = lazy_group [] (sv @ 0x2D # l)"
  by (simp add: match_mcp_def mcp_id_def js_def)

text \<open>
  With such a pair, and the tool enabled and the server connected, the first effect of
  \<open>executeMCPTool\<close> on the identifier is the request for the tool \<open>localName\<close> to the
  server \<open>serverName\<close>.
\<close>

lemma executeMCPTool_dispatch:
  assumes "serverName \<noteq> []" and "localName \<noteq> []"
    and "0x2D \<notin> set serverName"
    and "\<forall>c \<in> set serverName. \<not> LineTerminator c"
    and "\<forall>c \<in> set localName. \<not> LineTerminator c"
    and "mcp_id serverName localName \<notin> disabledTools s"
    and "isServerConnected st serverName"
  shows "hd (snd (executeMCPTool s w st n (mcp_id serverName localName) args)) =
           CallTool serverName localName args"
proof -
  from assms have m: "match_mcp (mcp_id serverName localName) = Some (serverName, localName)"
    using lazy_group_split [of "[]" serverName localName] by (simp add: match_mcp_id)
  from assms(7) obtain client where "Map_get (clients st) serverName = Some client"
    by (auto simp: isServerConnected_def Map_has_def Map_get_def)
  with assms(6,7) m show ?thesis
    by (simp add: executeMCPTool_def executeTool_def split: sum.splits)
qed

text \<open>
  Claim C1, as the code has it.  The pattern asks for at least one character in each
  group and \<open>.\<close> matches no line terminator.  So: for every server name and local name
  that are not empty and hold no line terminator (LF, CR, U+2028, U+2029), where the
  server name holds no dash, matching the identifier \<open>@mcp-<serverName>-<localName>\<close>
  gives back exactly the pair, whatever dashes the local name holds.
\<close>

theorem canonical_id_roundtrip:
  assumes "serverName \<noteq> []" and "localName \<noteq> []"
    and "0x2D \<notin> set serverName"
    and "\<forall>c \<in> set serverName. \<not> LineTerminator c"
    and "\<forall>c \<in> set localName. \<not> LineTerminator c"
  shows "match_mcp (mcp_id serverName localName) = Some (serverName, localName)"
  using lazy_group_split [of "[]" serverName localName] assms
  by (simp add: match_mcp_id)

theorem canonical_id_roundtrip_witness:
  "match_mcp (mcp_id (js ''alpha'') (js ''read-file'')) = Some (js ''alpha'', js ''read-file'')"
  using canonical_id_roundtrip [of "js ''alpha''" "js ''read-file''"]
  by (simp add: js_def LineTerminator_def)

text \<open>
  Claim C1 as stated, for every pair whose server name holds no dash, fails for the
  empty local name: \<open>@mcp-alpha-\<close> does not match the pattern.
\<close>

theorem empty_local_name_not_recovered:
  "match_mcp (mcp_id (js ''alpha'') []) \<noteq> Some (js ''alpha'', [])"
  by (simp add: match_mcp_def mcp_id_def js_def LineTerminator_def)

text \<open>
  Claim C5.  When the identifier is in the set of disabled tools, \<open>executeMCPTool\<close>
  throws the error "MCP tool ... is disabled", whatever the identifier looks like,
  whatever the manager holds and whatever the world would answer; its only effect is
  the logger call of the \<open>catch\<close> clause, so no request is sent.
\<close>

theorem disabled_tool_precedence:
  assumes "toolName \<in> disabledTools s"
  shows "executeMCPTool s w st n toolName args =
           (Inl (Error (js ''MCP tool '' @ toolName @ js '' is disabled'')),
            [LogError (js ''Failed to execute MCP tool '' @ toolName @ js '':'')])"
  using assms by (simp add: executeMCPTool_def)

theorem disabled_tool_precedence_witness:
  "executeMCPTool \<lparr>mcpDisabledTools = Some [js ''@mcp-alpha-echo'']\<rparr> echo_world alpha_manager 0
     (js ''@mcp-alpha-echo'') (JObj []) =
   (Inl (Error (js ''MCP tool @mcp-alpha-echo is disabled'')),
    [LogError (js ''Failed to execute MCP tool @mcp-alpha-echo:'')])"
  using disabled_tool_precedence
    [of "js ''@mcp-alpha-echo''" "\<lparr>mcpDisabledTools = Some [js ''@mcp-alpha-echo'']\<rparr>"
        echo_world alpha_manager 0 "JObj []"]
  by (simp add: disabledTools_def js_def)







section \<open>Properties of the connection registry\<close>

lemma Map_get_delete [simp]: "Map_get (Map_delete k m) k = None"
  by (simp add: Map_get_def Map_delete_def delete_conv')

lemma Map_has_delete [simp]: "\<not> Map_has (Map_delete k m) k"
  by (simp add: Map_has_def Map_delete_def delete_conv')

lemma Map_get_set [simp]: "Map_get (Map_set k v m) k = Some v"
  by (simp add: Map_get_def Map_set_def update_conv')

lemma Map_get_set_other [simp]: "j \<noteq> k \<Longrightarrow> Map_get (Map_set k v m) j = Map_get m j"
  by (simp add: Map_get_def Map_set_def update_conv')

lemma Map_has_get: "Map_has m k \<longleftrightarrow> Map_get m k \<noteq> None"
  by (simp add: Map_has_def Map_get_def)

lemma disconnect_clears_catalog:
  "Map_get (tools (fst (disconnectFromServer w serverName st))) serverName = None \<and>
   Map_get (resources (fst (disconnectFromServer w serverName st))) serverName = None"
  by (simp add: disconnectFromServer_def Let_def split: option.splits sum.splits prod.splits)

lemma disconnect_removes_closed_handle:
  "client_close w serverName = Inr u \<Longrightarrow>
   \<not> isServerConnected (fst (disconnectFromServer w serverName st)) serverName"
  by (auto simp: disconnectFromServer_def Let_def isServerConnected_def Map_has_get
      split: option.splits sum.splits prod.splits)

lemma disconnect_keeps_unclosed_handle:
  "isServerConnected st serverName \<Longrightarrow> client_close w serverName = Inl e \<Longrightarrow>
   isServerConnected (fst (disconnectFromServer w serverName st)) serverName"
  by (auto simp: disconnectFromServer_def Let_def isServerConnected_def Map_has_get
      split: option.splits sum.splits prod.splits)

lemma disconnect_stays_disconnected:
  "\<not> isServerConnected st serverName \<Longrightarrow>
   \<not> isServerConnected (fst (disconnectFromServer w serverName st)) serverName"
  by (auto simp: disconnectFromServer_def Let_def isServerConnected_def Map_has_get
      split: option.splits sum.splits prod.splits)

text \<open>
  Claim C7, as the code has it.  After \<open>disconnectFromServer\<close> the entries of the
  server in the tool and resource catalogs are gone on every run, also when a \<open>close\<close>
  call fails.  \<open>isServerConnected\<close> answers false afterwards when closing the client
  succeeds or when the server was not connected.
\<close>

theorem disconnect_postcondition:
  "Map_get (tools (fst (disconnectFromServer w serverName st))) serverName = None
   \<and> Map_get (resources (fst (disconnectFromServer w serverName st))) serverName = None
   \<and> (client_close w serverName = Inr u \<or> \<not> isServerConnected st serverName \<longrightarrow>
        \<not> isServerConnected (fst (disconnectFromServer w serverName st)) serverName)"
  using disconnect_clears_catalog [of w serverName st]
    disconnect_removes_closed_handle [of w serverName u st]
    disconnect_stays_disconnected [of st serverName w]
  by blast

theorem disconnect_postcondition_witness:
  "getServerTools (fst (disconnectFromServer echo_world (js ''alpha'') alpha_manager))
     (js ''alpha'') = []
   \<and> \<not> isServerConnected (fst (disconnectFromServer echo_world (js ''alpha'') alpha_manager))
         (js ''alpha'')
   \<and> isServerConnected alpha_manager (js ''alpha'')"
proof -
  have c: "client_close echo_world (js ''alpha'') = Inr ()"
    by (simp add: echo_world_def)
  have i: "isServerConnected alpha_manager (js ''alpha'')"
    by (simp add: isServerConnected_def Map_has_def alpha_manager_def)
  from disconnect_postcondition [of echo_world "js ''alpha''" alpha_manager "()"] c i
  show ?thesis by (simp add: getServerTools_def)
qed

text \<open>
  When closing the client fails, the \<open>catch\<close> clause logs the failure and the client
  stays in \<open>clients\<close> (lemma \<open>disconnect_keeps_unclosed_handle\<close>).  So Claim C7 as
  stated fails on a run where both \<open>close\<close> calls fail: the server \<open>alpha\<close>
  was connected, \<open>disconnectFromServer\<close> reports the two failures and logs
  "Disconnected from MCP server: alpha", the tools of \<open>alpha\<close> are gone, and
  \<open>isServerConnected\<close> still answers true.
\<close>

theorem disconnect_close_failure_stays_connected:
  "isServerConnected (fst (disconnectFromServer failing_close_world (js ''alpha'') alpha_manager))
     (js ''alpha'')
   \<and> snd (disconnectFromServer failing_close_world (js ''alpha'') alpha_manager) =
       [LogError (js ''Error closing client for server alpha:''),
        LogError (js ''Error closing transport for server alpha:''),
        LogInfo (js ''Disconnected from MCP server: alpha'')]
   \<and> getServerTools (fst (disconnectFromServer failing_close_world (js ''alpha'') alpha_manager))
       (js ''alpha'') = []"
  by (simp add: disconnectFromServer_def failing_close_world_def echo_world_def alpha_manager_def
      isServerConnected_def getServerTools_def Map_has_def Map_get_def Map_delete_def js_def Let_def)

text \<open>
  Claim C8.  With no configuration under the name, \<open>connectToServer\<close> throws "Server
  ... not found".  With a configuration, when the handshake fails (the \<open>URL\<close>
  constructor or \<open>client.connect\<close> throws), the error reaches the caller and the
  manager is the one before the call: nothing was stored in \<open>clients\<close>, \<open>transports\<close>,
  \<open>tools\<close> or \<open>resources\<close>.
\<close>

theorem connect_atomicity:
  "(Map_get (servers st) serverName = None \<longrightarrow>
      connectToServer w serverName st =
        (Inl (Error (js ''Server '' @ serverName @ js '' not found'')), st, []))
   \<and> (Map_get (servers st) serverName = Some serverConfig \<and>
      (new_URL w (sseUrl serverConfig) = Inl error \<or>
       new_URL w (sseUrl serverConfig) = Inr url \<and> client_connect w serverName = Inl error) \<longrightarrow>
      connectToServer w serverName st =
        (Inl error, st,
         [LogError (js ''Failed to connect to MCP server '' @ serverName @ js '':'')]))"
  by (auto simp: connectToServer_def)

theorem connect_atomicity_witness:
  "connectToServer refusing_world (js ''beta'') registered_manager =
     (Inl (Error (js ''Server beta not found'')), registered_manager, [])
   \<and> connectToServer refusing_world (js ''alpha'') registered_manager =
     (Inl (Error (js ''ECONNREFUSED'')), registered_manager,
      [LogError (js ''Failed to connect to MCP server alpha:'')])"
proof -
  have a: "Map_get (servers registered_manager) (js ''beta'') = None"
    by (simp add: registered_manager_def alpha_manager_def Map_get_def js_def)
  have b: "Map_get (servers registered_manager) (js ''alpha'') =
             Some \<lparr>server_name = js ''alpha'', sseUrl = js ''http://localhost:3000/sse'',
                   apiKey = None, enabled = Some True\<rparr>"
    by (simp add: registered_manager_def alpha_manager_def Map_get_def)
  have c: "new_URL refusing_world (js ''http://localhost:3000/sse'') =
             Inr (js ''http://localhost:3000/sse'')
           \<and> client_connect refusing_world (js ''alpha'') = Inl (Error (js ''ECONNREFUSED''))"
    by (simp add: refusing_world_def echo_world_def)
  from a b c
    connect_atomicity [of registered_manager "js ''beta''" refusing_world]
    connect_atomicity [of registered_manager "js ''alpha''" refusing_world
      "\<lparr>server_name = js ''alpha'', sseUrl = js ''http://localhost:3000/sse'',
        apiKey = None, enabled = Some True\<rparr>" "Error (js ''ECONNREFUSED'')"
      "js ''http://localhost:3000/sse''"]
  show ?thesis by (simp add: js_def)
qed



section \<open>Properties of the streaming loop\<close>

lemma stream_loop_append:
  "\<forall>x \<in> set pre. \<not> fst x \<Longrightarrow>
   stream_loop rt (pre @ post) s = stream_loop rt post (stream_loop rt pre s)"
  by (induction pre arbitrary: s) auto








subsection \<open>Fragments of tool calls\<close>

lemma str_or_empty: "str_or a [] = (case a of None \<Rightarrow> [] | Some t \<Rightarrow> t)"
  by (simp add: str_or_def split: option.splits)



lemma accumulate_at_index:
  "\<exists>a. Map_get (accumulate t m) (tcc_index t) = Some a \<and>
        acc_args a =
          (case Map_get m (tcc_index t) of None \<Rightarrow> [] | Some old \<Rightarrow> acc_args old) @
          str_or (tcc_args t) [] \<and>
        (\<not> truthy_str (tcc_name t) \<longrightarrow>
           acc_name a = (case Map_get m (tcc_index t) of None \<Rightarrow> [] | Some old \<Rightarrow> acc_name old))"
  by (cases "Map_get m (tcc_index t)"; cases "tcc_args t")
     (auto simp: accumulate_def Map_has_get str_or_def Let_def)






subsection \<open>Complete tool calls\<close>

lemma push_mono:
  "set buf \<subseteq> set (foldl (\<lambda>buf toolCall. buf @ [buffered rt (length buf) toolCall]) buf calls)"
proof (induction calls arbitrary: buf)
  case Nil
  show ?case by simp
next
  case (Cons x calls)
  from Cons.IH [of "buf @ [buffered rt (length buf) x]"] show ?case by auto
qed

lemma push_accepts:
  "toolCall \<in> set calls \<Longrightarrow>
   \<exists>n. buffered rt n toolCall \<in>
         set (foldl (\<lambda>buf toolCall. buf @ [buffered rt (length buf) toolCall]) buf calls)"
proof (induction calls arbitrary: buf)
  case Nil
  then show ?case by simp
next
  case (Cons x calls)
  show ?case
  proof (cases "toolCall = x")
    case True
    have "buffered rt (length buf) x \<in> set (buf @ [buffered rt (length buf) x])" by simp
    with push_mono [of "buf @ [buffered rt (length buf) x]" rt calls] True
    show ?thesis by auto
  next
    case False
    with Cons.prems have "toolCall \<in> set calls" by simp
    from Cons.IH [OF this, of "buf @ [buffered rt (length buf) x]"] show ?thesis by simp
  qed
qed

lemma consume_buffer_mono:
  "set (toolCallsBuffer s) \<subseteq> set (toolCallsBuffer (consume rt c s))"
  using push_mono
  by (auto simp: consume_def Let_def split: option.splits list.splits)

lemma consume_accepts:
  assumes "tool_call_chunks c = None" and "tool_calls c = Some calls"
    and "toolCall \<in> set calls" and "valid_name toolCall"
  shows "\<exists>n. buffered rt n toolCall \<in> set (toolCallsBuffer (consume rt c s))"
proof -
  from assms have v: "toolCall \<in> set (filter valid_name calls)" by simp
  then have ne: "filter valid_name calls \<noteq> []" by (metis empty_iff empty_set)
  from assms(3) obtain x xs where calls: "calls = x # xs" by (cases calls) auto
  from push_accepts [OF v, of rt "toolCallsBuffer s"] assms(1,2) ne calls
  show ?thesis by (simp add: consume_def Let_def del: filter.simps)
qed

lemma stream_loop_buffer_mono:
  "set (toolCallsBuffer s) \<subseteq> set (toolCallsBuffer (stream_loop rt stream s))"
proof (induction stream arbitrary: s)
  case Nil
  show ?case by simp
next
  case (Cons x stream)
  obtain aborted c where x: "x = (aborted, c)" by (cases x)
  from Cons.IH [of "consume rt c s"] consume_buffer_mono [of s rt c] x
  show ?case by auto
qed

lemma stream_loop_accepts:
  assumes "\<forall>x \<in> set pre. \<not> fst x"
    and "tool_call_chunks c = None" and "tool_calls c = Some calls"
    and "toolCall \<in> set calls" and "valid_name toolCall"
  shows "\<exists>n. buffered rt n toolCall \<in>
              set (toolCallsBuffer (stream_loop rt (pre @ (False, c) # post) s))"
proof -
  let ?s = "stream_loop rt pre s"
  from consume_accepts [OF assms(2-5), of rt ?s] obtain n
    where "buffered rt n toolCall \<in> set (toolCallsBuffer (consume rt c ?s))" ..
  with stream_loop_buffer_mono [of "consume rt c ?s" rt post]
  have "buffered rt n toolCall \<in> set (toolCallsBuffer (stream_loop rt post (consume rt c ?s)))"
    by blast
  with assms(1) show ?thesis by (auto simp: stream_loop_append)
qed

lemma accumulate_not_empty: "accumulate t m \<noteq> []"
proof -
  from accumulate_at_index [of t m] obtain a
    where "Map_get (accumulate t m) (tcc_index t) = Some a" by blast
  then show ?thesis by (auto simp: Map_get_def)
qed

lemma consume_flag:
  "(toolCallAccumulator s \<noteq> [] \<longrightarrow> hasToolCalls s) \<Longrightarrow>
   (toolCallAccumulator (consume rt c s) \<noteq> [] \<longrightarrow> hasToolCalls (consume rt c s))"
  by (auto simp: consume_def Let_def split: option.splits list.splits)

lemma stream_loop_flag:
  "(toolCallAccumulator s \<noteq> [] \<longrightarrow> hasToolCalls s) \<Longrightarrow>
   (toolCallAccumulator (stream_loop rt stream s) \<noteq> [] \<longrightarrow>
    hasToolCalls (stream_loop rt stream s))"
proof (induction stream arbitrary: s)
  case Nil
  then show ?case by simp
next
  case (Cons x stream)
  obtain aborted c where x: "x = (aborted, c)" by (cases x)
  from Cons.IH [OF consume_flag [OF Cons.prems, of rt c]] Cons.prems x
  show ?case by simp
qed

text \<open>
  Claim C3, as the code has it.  A complete tool call whose name is not blank, in a
  chunk without \<open>tool_call_chunks\<close> that is read before any cancellation, is among the
  calls resolved at the end of the stream when no fragment was accumulated during the
  pass, for any index.  When fragments were accumulated, for whatever index, the
  resolved calls are exactly the calls rebuilt from the fragments, and every complete
  tool call of the pass is dropped.
\<close>

theorem whole_call_acceptance:
  "((\<forall>x \<in> set pre. \<not> fst x) \<and> tool_call_chunks c = None \<and> tool_calls c = Some calls \<and>
     toolCall \<in> set calls \<and> valid_name toolCall \<and>
     toolCallAccumulator (stream_loop rt (pre @ (False, c) # post) initial_state) = [] \<longrightarrow>
     (\<exists>n. buffered rt n toolCall \<in>
           set (resolved_calls rt (stream_loop rt (pre @ (False, c) # post) initial_state))))
   \<and> (toolCallAccumulator (stream_loop rt stream initial_state) \<noteq> [] \<longrightarrow>
      resolved_calls rt (stream_loop rt stream initial_state) =
        concat (map (parse_entry rt) (toolCallAccumulator (stream_loop rt stream initial_state))))"
proof (intro conjI impI)
  assume h: "(\<forall>x \<in> set pre. \<not> fst x) \<and> tool_call_chunks c = None \<and> tool_calls c = Some calls \<and>
     toolCall \<in> set calls \<and> valid_name toolCall \<and>
     toolCallAccumulator (stream_loop rt (pre @ (False, c) # post) initial_state) = []"
  then have "\<exists>n. buffered rt n toolCall \<in>
                 set (toolCallsBuffer (stream_loop rt (pre @ (False, c) # post) initial_state))"
    by (intro stream_loop_accepts) auto
  with h show "\<exists>n. buffered rt n toolCall \<in>
           set (resolved_calls rt (stream_loop rt (pre @ (False, c) # post) initial_state))"
    by (simp add: resolved_calls_def)
next
  assume "toolCallAccumulator (stream_loop rt stream initial_state) \<noteq> []"
  moreover from this stream_loop_flag [of initial_state rt stream]
  have "hasToolCalls (stream_loop rt stream initial_state)"
    by (simp add: initial_state_def)
  ultimately show "resolved_calls rt (stream_loop rt stream initial_state) =
        concat (map (parse_entry rt) (toolCallAccumulator (stream_loop rt stream initial_state)))"
    by (simp add: resolved_calls_def)
qed

text \<open>
  Claim C3 as stated, acceptance for an index without fragments, fails on a stream
  with a fragment for index 0 followed by the complete tool call \<open>search\<close>: fragments
  exist for index 0 only, and the only resolved call is \<open>echo\<close>, rebuilt from them.
\<close>

theorem whole_call_dropped_beside_fragments:
  "map fst (toolCallAccumulator
              (stream_loop model_runtime
                 [fragment 0 ''call_1'' ''echo'' ''{}'', whole_call ''call_2'' ''search'']
                 initial_state)) = [0]
   \<and> resolved_calls model_runtime
        (stream_loop model_runtime
           [fragment 0 ''call_1'' ''echo'' ''{}'', whole_call ''call_2'' ''search'']
           initial_state) =
      [\<lparr>call_id = Some (js ''call_1''), call_name = Some (js ''echo''),
        call_args = Some (JObj []), call_input = None\<rparr>]"
  by code_simp

theorem whole_call_acceptance_witness:
  "(\<exists>n. buffered model_runtime n (complete_call ''call_2'' ''search'') \<in>
         set (resolved_calls model_runtime
                (stream_loop model_runtime
                   [narrative False ''Searching. '', whole_call ''call_2'' ''search'']
                   initial_state)))
   \<and> resolved_calls model_runtime
        (stream_loop model_runtime
           [whole_call ''call_2'' ''search'', fragment 0 ''call_1'' ''echo'' ''{}'']
           initial_state) =
      concat (map (parse_entry model_runtime)
                (toolCallAccumulator
                   (stream_loop model_runtime
                      [whole_call ''call_2'' ''search'', fragment 0 ''call_1'' ''echo'' ''{}'']
                      initial_state)))"
proof -
  let ?c = "snd (whole_call ''call_2'' ''search'')"
  have s1: "[narrative False ''Searching. ''] @ (False, ?c) # [] =
              [narrative False ''Searching. '', whole_call ''call_2'' ''search'']"
    by (simp add: whole_call_def)
  have h1: "\<forall>x \<in> set [narrative False ''Searching. '']. \<not> fst x"
    by (simp add: narrative_def)
  have h2: "tool_call_chunks ?c = None"
    "tool_calls ?c = Some [complete_call ''call_2'' ''search'']"
    by (simp_all add: whole_call_def)
  have h3: "valid_name (complete_call ''call_2'' ''search'')"
    by code_simp
  have h4: "toolCallAccumulator
              (stream_loop model_runtime
                 [narrative False ''Searching. '', whole_call ''call_2'' ''search'']
                 initial_state) = []"
    by code_simp
  have h5: "toolCallAccumulator
              (stream_loop model_runtime
                 [whole_call ''call_2'' ''search'', fragment 0 ''call_1'' ''echo'' ''{}'']
                 initial_state) \<noteq> []"
    by code_simp
  from whole_call_acceptance
         [of "[narrative False ''Searching. '']" ?c "[complete_call ''call_2'' ''search'']"
             "complete_call ''call_2'' ''search''" model_runtime "[]"
             "[whole_call ''call_2'' ''search'', fragment 0 ''call_1'' ''echo'' ''{}'']"]
       h1 h2 h3 h4 h5
  show ?thesis unfolding s1 by simp
qed

subsection \<open>Executing the resolved calls\<close>









end
